theory Spec2Isabelle
  imports Complex_Main
begin

section \<open>Layer-stack model of the InGaN/GaN HEMT structure\<close>

text \<open>
  The development embeds \<^verbatim>\<open>src/device_structures/hemt_structure.py\<close>.
  Python numbers (\<^verbatim>\<open>float\<close> fields that the default structure fills with integer
  and decimal literals) are embedded as reals. A double is the real number it denotes;
  infinities and NaN have no counterpart. The walks over the stack are embedded with the
  mathematical \<open>+\<close>, which describes what they accumulate. Where two sums of the same
  thicknesses are taken in different orders the rounding of every single addition
  decides whether they agree, so \<^verbatim>\<open>sum\<close> and the boundary walk are also embedded
  with the rounded addition of doubles (\<open>float_add\<close> below).
  Exceptions are values of the type \<open>error\<close>; a function that may raise returns
  \<open>error + 'a\<close> with \<open>Inl\<close> for the raised exception. Methods that mutate
  \<^verbatim>\<open>self\<close> take the structure and return the updated one.
\<close>

subsection \<open>Data model\<close>

datatype LayerType =
    SUBSTRATE | NUCLEATION | BUFFER | CHANNEL | SPACER | BARRIER | CAP | PASSIVATION | CONTACT

text \<open>The \<^verbatim>\<open>.value\<close> of each member of the enumeration.\<close>

fun LayerType_value :: "LayerType \<Rightarrow> string" where
  "LayerType_value SUBSTRATE = ''substrate''"
| "LayerType_value NUCLEATION = ''nucleation''"
| "LayerType_value BUFFER = ''buffer''"
| "LayerType_value CHANNEL = ''channel''"
| "LayerType_value SPACER = ''spacer''"
| "LayerType_value BARRIER = ''barrier''"
| "LayerType_value CAP = ''cap''"
| "LayerType_value PASSIVATION = ''passivation''"
| "LayerType_value CONTACT = ''contact''"

text \<open>
  The exceptions the module can raise: \<^verbatim>\<open>ValueError\<close> (with its message) from
  \<^verbatim>\<open>Layer.__post_init__\<close>, \<^verbatim>\<open>StopIteration\<close> from \<^verbatim>\<open>next\<close> on an exhausted
  generator, \<^verbatim>\<open>KeyError\<close> from a dictionary subscript.
\<close>

datatype error = ValueError string | StopIteration | KeyError string

definition bindE :: "error + 'a \<Rightarrow> ('a \<Rightarrow> error + 'b) \<Rightarrow> error + 'b" where
  "bindE m f = (case m of Inl e \<Rightarrow> Inl e | Inr x \<Rightarrow> f x)"

record Layer =
  name :: string
  material :: string
  thickness :: real
  layer_type :: LayerType
  doping_type :: "string option"
  doping_concentration :: real
  composition :: "(string \<times> real) list option"

text \<open>
  Construction of a \<^verbatim>\<open>Layer\<close>: the dataclass stores the seven fields and then runs
  \<^verbatim>\<open>__post_init__\<close>, which checks the thickness first and the doping concentration
  second.
\<close>

definition Layer_init ::
  "string \<Rightarrow> string \<Rightarrow> real \<Rightarrow> LayerType \<Rightarrow> string option \<Rightarrow> real \<Rightarrow>
   (string \<times> real) list option \<Rightarrow> error + Layer" where
  "Layer_init nm mat th lt dt dc cmp =
     (if th \<le> 0 then Inl (ValueError (''Layer thickness must be positive: '' @ nm))
      else if dc < 0 then Inl (ValueError (''Doping concentration cannot be negative: '' @ nm))
      else Inr \<lparr>name = nm, material = mat, thickness = th, layer_type = lt,
                doping_type = dt, doping_concentration = dc, composition = cmp\<rparr>)"

record Contact =
  name :: string
  contact_type :: string
  material :: string
  position :: "real \<times> real"
  work_function :: "real option"
  contact_resistance :: "real option"

text \<open>
  Construction of a \<^verbatim>\<open>Contact\<close>: the dataclass has no \<^verbatim>\<open>__post_init__\<close>, so the
  generated \<^verbatim>\<open>__init__\<close> stores the six fields and nothing else runs.
\<close>

definition Contact_init ::
  "string \<Rightarrow> string \<Rightarrow> string \<Rightarrow> real \<times> real \<Rightarrow> real option \<Rightarrow> real option \<Rightarrow>
   error + Contact" where
  "Contact_init nm ct mat pos wfn cr =
     Inr \<lparr>name = nm, contact_type = ct, material = mat, position = pos,
          work_function = wfn, contact_resistance = cr\<rparr>"

subsection \<open>The structure and its default layer stack\<close>

text \<open>
  \<^verbatim>\<open>device_dimensions\<close> is a dictionary from parameter names to numbers; it is kept as
  an association list in insertion order, and a subscript on a missing key raises
  \<^verbatim>\<open>KeyError\<close>.
\<close>

definition dict_getitem :: "(string \<times> 'v) list \<Rightarrow> string \<Rightarrow> error + 'v" where
  "dict_getitem d k = (case map_of d k of None \<Rightarrow> Inl (KeyError k) | Some v \<Rightarrow> Inr v)"

record HEMTStructure =
  substrate_type :: string
  layers :: "Layer list"
  contacts :: "Contact list"
  device_dimensions :: "(string \<times> real) list"

text \<open>
  \<^verbatim>\<open>AdvancedHEMTStructure\<close> is the subclass with two more attributes, both lists of
  dictionaries: a field plate is (name, material, position, height), a passivation entry
  is (material, thickness).
\<close>

record AdvancedHEMTStructure = HEMTStructure +
  field_plates :: "(string \<times> string \<times> (real \<times> real) \<times> real) list"
  passivation_layers :: "(string \<times> real) list"

definition add_layer :: "'a HEMTStructure_scheme \<Rightarrow> Layer \<Rightarrow> 'a HEMTStructure_scheme" where
  "add_layer self layer = self\<lparr>layers := layers self @ [layer]\<rparr>"

definition add_contact :: "'a HEMTStructure_scheme \<Rightarrow> Contact \<Rightarrow> 'a HEMTStructure_scheme" where
  "add_contact self contact = self\<lparr>contacts := contacts self @ [contact]\<rparr>"

definition define_contacts :: "'a HEMTStructure_scheme \<Rightarrow> error + 'a HEMTStructure_scheme" where
  "define_contacts self =
     bindE (Contact_init ''Source'' ''ohmic'' ''Ti/Al/Ni/Au'' (0, 1) None (Some (2 / 10)))
       (\<lambda>source. let self = add_contact self source in
     bindE (dict_getitem (device_dimensions self) ''source_drain_spacing'')
       (\<lambda>drain_start.
     bindE (Contact_init ''Drain'' ''ohmic'' ''Ti/Al/Ni/Au'' (drain_start, drain_start + 1)
              None (Some (2 / 10)))
       (\<lambda>drain. let self = add_contact self drain; gate_start = 15 / 10 in
     bindE (dict_getitem (device_dimensions self) ''gate_length'')
       (\<lambda>gate_length. let gate_end = gate_start + gate_length in
     bindE (Contact_init ''Gate'' ''schottky'' ''Ni/Au'' (gate_start, gate_end)
              (Some (51 / 10)) None)
       (\<lambda>gate. Inr (add_contact self gate))))))"

text \<open>
  The substrate thickness in nm that \<^verbatim>\<open>_build_default_structure\<close> picks from the
  substrate type; any string other than the three named ones is treated as a GaN substrate.
\<close>

definition substrate_thickness_of :: "string \<Rightarrow> real" where
  "substrate_thickness_of st =
     (if st = ''SiC'' then 350000
      else if st = ''Si'' then 525000
      else if st = ''Sapphire'' then 430000
      else 300000)"

definition build_default_structure ::
  "'a HEMTStructure_scheme \<Rightarrow> error + 'a HEMTStructure_scheme" where
  "build_default_structure self =
     (let substrate_thickness = substrate_thickness_of (substrate_type self) in
      bindE (Layer_init ''Substrate'' (substrate_type self) substrate_thickness SUBSTRATE
               None 0 None)
        (\<lambda>l. let self = add_layer self l in
      bindE (if substrate_type self \<noteq> ''GaN''
             then bindE (Layer_init ''Nucleation'' ''AlN'' 100 NUCLEATION None 0 None)
                    (\<lambda>l. Inr (add_layer self l))
             else Inr self)
        (\<lambda>self.
      bindE (Layer_init ''Buffer1'' ''AlGaN'' 500 BUFFER None 0
               (Some [(''Al'', 1 / 10), (''Ga'', 9 / 10)]))
        (\<lambda>l. let self = add_layer self l in
      bindE (Layer_init ''Buffer2'' ''GaN'' 1500 BUFFER (Some ''n'') (10 ^ 16) None)
        (\<lambda>l. let self = add_layer self l in
      bindE (Layer_init ''Channel'' ''GaN'' 300 CHANNEL None (10 ^ 16) None)
        (\<lambda>l. let self = add_layer self l in
      bindE (Layer_init ''Spacer'' ''AlN'' 1 SPACER None 0 None)
        (\<lambda>l. let self = add_layer self l in
      bindE (Layer_init ''Barrier'' ''InAlN'' 15 BARRIER (Some ''n'') (5 * 10 ^ 18)
               (Some [(''In'', 17 / 100), (''Al'', 83 / 100)]))
        (\<lambda>l. let self = add_layer self l in
      bindE (Layer_init ''Cap'' ''GaN'' 2 CAP (Some ''n'') (2 * 10 ^ 19) None)
        (\<lambda>l. let self = add_layer self l in
      define_contacts self)))))))))"

text \<open>
  \<^verbatim>\<open>HEMTStructure.__init__\<close>: the attributes are set, then the default stack and the
  default contacts are built.
\<close>

definition HEMTStructure_init :: "string \<Rightarrow> error + HEMTStructure" where
  "HEMTStructure_init st =
     build_default_structure
       \<lparr>substrate_type = st, layers = [], contacts = [],
        device_dimensions =
          [(''gate_length'', 25 / 100), (''gate_width'', 100),
           (''source_drain_spacing'', 4), (''field_plate_length'', 5 / 10),
           (''device_length'', 10)]\<rparr>"

text \<open>
  \<^verbatim>\<open>AdvancedHEMTStructure.__init__\<close>: the base initialiser runs first (on the same
  object), then the two extra lists are set to empty.
\<close>

definition AdvancedHEMTStructure_init :: "string \<Rightarrow> error + AdvancedHEMTStructure" where
  "AdvancedHEMTStructure_init st =
     bindE (build_default_structure
       \<lparr>substrate_type = st, layers = [], contacts = [],
        device_dimensions =
          [(''gate_length'', 25 / 100), (''gate_width'', 100),
           (''source_drain_spacing'', 4), (''field_plate_length'', 5 / 10),
           (''device_length'', 10)],
        field_plates = [], passivation_layers = []\<rparr>)
       (\<lambda>self. Inr (self\<lparr>field_plates := [], passivation_layers := []\<rparr>))"

subsection \<open>Aggregate queries and derived geometry\<close>

text \<open>
  Addition of Python floats is the addition of IEEE binary64 numbers: the exact sum,
  rounded to the nearest double, a tie going to the double with the even significand.
  \<open>round_half_even\<close> rounds a real to an integer in this way. A double is an integer
  significand below \<open>2 ^ 53\<close> times a power of two between \<open>2 ^ -1074\<close> and \<open>2 ^ 971\<close>:
  \<open>round_small\<close> doubles a magnitude below \<open>2 ^ 52\<close> until it reaches \<open>2 ^ 52\<close>, at
  most 1074 times (fewer doublings are not enough only for a subnormal result), rounds
  it to an integer and scales back; \<open>round_large\<close> halves a magnitude from \<open>2 ^ 53\<close> on,
  at most 971 times. A result of magnitude \<open>2 ^ 1024\<close> or more, which the machine turns
  into an infinity, is outside the model.
\<close>

definition round_half_even :: "real \<Rightarrow> int" where
  "round_half_even y =
     (let f = \<lfloor>y\<rfloor> in
      if y - of_int f < 1 / 2 then f
      else if 1 / 2 < y - of_int f then f + 1
      else if even f then f else f + 1)"

primrec round_small :: "nat \<Rightarrow> real \<Rightarrow> real" where
  "round_small 0 x = of_int (round_half_even x)"
| "round_small (Suc n) x =
     (if x < 2 ^ 52 then round_small n (2 * x) / 2 else of_int (round_half_even x))"

primrec round_large :: "nat \<Rightarrow> real \<Rightarrow> real" where
  "round_large 0 x = of_int (round_half_even x)"
| "round_large (Suc n) x =
     (if 2 ^ 53 \<le> x then 2 * round_large n (x / 2) else of_int (round_half_even x))"

definition double_round :: "real \<Rightarrow> real" where
  "double_round x =
     (if x < 0
      then - (if 2 ^ 53 \<le> - x then round_large 971 (- x) else round_small 1074 (- x))
      else (if 2 ^ 53 \<le> x then round_large 971 x else round_small 1074 x))"

definition float_add :: "real \<Rightarrow> real \<Rightarrow> real" where
  "float_add a b = double_round (a + b)"

text \<open>
  Python's \<^verbatim>\<open>sum\<close> starts from 0 and adds the items from left to right, rounding
  after every addition. (This is the loop of CPython up to version 3.11; from 3.12 on
  \<^verbatim>\<open>sum\<close> also carries a correction term for floats.)
\<close>

definition py_sum :: "real list \<Rightarrow> real" where
  "py_sum xs = foldl float_add 0 xs"

definition get_total_thickness :: "'a HEMTStructure_scheme \<Rightarrow> real" where
  "get_total_thickness self = py_sum (map thickness (layers self))"

definition get_epi_thickness :: "'a HEMTStructure_scheme \<Rightarrow> real" where
  "get_epi_thickness self =
     py_sum (map thickness (filter (\<lambda>layer. layer_type layer \<noteq> SUBSTRATE) (layers self)))"

text \<open>
  The loop of \<^verbatim>\<open>get_layer_boundaries\<close>, with its two loop variables: the list
  \<^verbatim>\<open>boundaries\<close> under construction and the running depth \<^verbatim>\<open>z\<close>.
\<close>

fun boundaries_loop :: "real list \<Rightarrow> real \<Rightarrow> Layer list \<Rightarrow> real list" where
  "boundaries_loop boundaries z [] = boundaries"
| "boundaries_loop boundaries z (layer # rest) =
     (if layer_type layer \<noteq> SUBSTRATE
      then boundaries_loop (boundaries @ [z + thickness layer]) (z + thickness layer) rest
      else boundaries_loop boundaries z rest)"


text \<open>
  The same loop with every \<^verbatim>\<open>z += layer.thickness\<close> rounded to a double, as the
  interpreter performs it.
\<close>

fun boundaries_loop_rounded :: "real list \<Rightarrow> real \<Rightarrow> Layer list \<Rightarrow> real list" where
  "boundaries_loop_rounded boundaries z [] = boundaries"
| "boundaries_loop_rounded boundaries z (layer # rest) =
     (if layer_type layer \<noteq> SUBSTRATE
      then boundaries_loop_rounded (boundaries @ [float_add z (thickness layer)])
             (float_add z (thickness layer)) rest
      else boundaries_loop_rounded boundaries z rest)"

definition get_layer_boundaries_rounded :: "'a HEMTStructure_scheme \<Rightarrow> real list" where
  "get_layer_boundaries_rounded self = boundaries_loop_rounded [0] 0 (rev (layers self))"



subsection \<open>Mutation of the layer sequence by the advanced structure\<close>

definition add_field_plate ::
  "AdvancedHEMTStructure \<Rightarrow> string \<Rightarrow> string \<Rightarrow> real \<times> real \<Rightarrow> real \<Rightarrow> AdvancedHEMTStructure" where
  "add_field_plate self nm mat pos height =
     self\<lparr>field_plates := field_plates self @ [(nm, mat, pos, height)]\<rparr>"

definition add_passivation :: "AdvancedHEMTStructure \<Rightarrow> string \<Rightarrow> real \<Rightarrow> AdvancedHEMTStructure" where
  "add_passivation self mat th =
     self\<lparr>passivation_layers := passivation_layers self @ [(mat, th)]\<rparr>"

text \<open>
  \<^verbatim>\<open>next(i for i, layer in enumerate(self.layers) if cond)\<close>: the index of the first
  layer that satisfies the condition, counted from \<open>i\<close>; an exhausted generator makes
  \<^verbatim>\<open>next\<close> raise \<^verbatim>\<open>StopIteration\<close>.
\<close>

fun next_index :: "(Layer \<Rightarrow> bool) \<Rightarrow> nat \<Rightarrow> Layer list \<Rightarrow> error + nat" where
  "next_index cond i [] = Inl StopIteration"
| "next_index cond i (layer # rest) =
     (if cond layer then Inr i else next_index cond (Suc i) rest)"

text \<open>
  \<^verbatim>\<open>list.insert(i, x)\<close> for a non-negative index: the item goes before position \<open>i\<close>,
  and at the end when \<open>i\<close> is not smaller than the length.
\<close>

definition list_insert :: "nat \<Rightarrow> 'a \<Rightarrow> 'a list \<Rightarrow> 'a list" where
  "list_insert i x xs = take i xs @ [x] @ drop i xs"

text \<open>
  \<^verbatim>\<open>add_back_barrier\<close>: the channel index is looked up first, the new layer is
  constructed (and validated) second, the insertion comes last.
\<close>

definition add_back_barrier ::
  "AdvancedHEMTStructure \<Rightarrow> real \<Rightarrow> real \<Rightarrow> error + AdvancedHEMTStructure" where
  "add_back_barrier self th dc =
     bindE (next_index (\<lambda>layer. layer_type layer = CHANNEL) 0 (layers self))
       (\<lambda>channel_idx.
     bindE (Layer_init ''BackBarrier'' ''AlGaN'' th BUFFER (Some ''p'') dc
              (Some [(''Al'', 5 / 100), (''Ga'', 95 / 100)]))
       (\<lambda>back_barrier.
     Inr (self\<lparr>layers := list_insert (channel_idx + 1) back_barrier (layers self)\<rparr>)))"

subsection \<open>The doping section of the Sentaurus export\<close>

text \<open>\<^verbatim>\<open>str(i)\<close> for a non-negative integer: its decimal digits.\<close>

function str_nat :: "nat \<Rightarrow> string" where
  "str_nat n =
     (if n < 10 then [''0123456789'' ! n]
      else str_nat (n div 10) @ [''0123456789'' ! (n mod 10)])"
  by pat_completeness auto
termination
  by (relation "measure (\<lambda>n. n)") auto

text \<open>
  The loop under \<^verbatim>\<open># Define doping\<close> in \<^verbatim>\<open>export_sentaurus_structure\<close>. It walks
  \<^verbatim>\<open>enumerate(self.layers)\<close>; for a layer with a positive concentration the three
  \<^verbatim>\<open>f.write\<close> calls of the body put one directive, ending in a newline, on the file.
  The result lists the directives in the order written; the text on the file is their
  concatenation. The parameter \<open>format_2e\<close> stands for Python's formatting of a float
  under the format specification \<^verbatim>\<open>.2e\<close>.
\<close>

fun doping_loop :: "(real \<Rightarrow> string) \<Rightarrow> nat \<Rightarrow> Layer list \<Rightarrow> string list" where
  "doping_loop format_2e i [] = []"
| "doping_loop format_2e i (layer # rest) =
     (if doping_concentration layer > 0
      then (let dtype = (if doping_type layer = Some ''n'' then ''donor'' else ''acceptor'')
            in (''(define doping_'' @ str_nat i @ '' (constant '' @
                [CHR 0x22] @ Layer.name layer @ [CHR 0x22] @ '' '' @
                [CHR 0x22] @ dtype @ [CHR 0x22] @ '' '' @
                format_2e (doping_concentration layer) @ ''))'' @ [CHR 0x0A])
               # doping_loop format_2e (Suc i) rest)
      else doping_loop format_2e (Suc i) rest)"

definition doping_directives :: "(real \<Rightarrow> string) \<Rightarrow> 'a HEMTStructure_scheme \<Rightarrow> string list" where
  "doping_directives format_2e self = doping_loop format_2e 0 (layers self)"

subsection \<open>The interchange document\<close>

text \<open>
  \<^verbatim>\<open>export_python_mesh\<close> builds a nested dictionary and hands it to \<^verbatim>\<open>json.dump\<close>.
  The document is embedded as a JSON value; an object keeps its keys in insertion order,
  Python's \<^verbatim>\<open>None\<close> is \<open>JNull\<close>, and a tuple is written as an array.
\<close>

datatype json = JNull | JNum real | JStr string | JArr "json list" | JObj "(string \<times> json) list"

definition json_opt_str :: "string option \<Rightarrow> json" where
  "json_opt_str v = (case v of None \<Rightarrow> JNull | Some x \<Rightarrow> JStr x)"

definition json_opt_num :: "real option \<Rightarrow> json" where
  "json_opt_num v = (case v of None \<Rightarrow> JNull | Some x \<Rightarrow> JNum x)"

definition json_num_dict :: "(string \<times> real) list \<Rightarrow> json" where
  "json_num_dict d = JObj (map (\<lambda>(k, v). (k, JNum v)) d)"

definition layer_dict :: "Layer \<Rightarrow> json" where
  "layer_dict layer =
     JObj [(''name'', JStr (Layer.name layer)),
           (''material'', JStr (Layer.material layer)),
           (''thickness'', JNum (thickness layer)),
           (''type'', JStr (LayerType_value (layer_type layer))),
           (''doping_type'', json_opt_str (doping_type layer)),
           (''doping_concentration'', JNum (doping_concentration layer)),
           (''composition'',
              (case composition layer of None \<Rightarrow> JNull | Some d \<Rightarrow> json_num_dict d))]"

definition contact_dict :: "Contact \<Rightarrow> json" where
  "contact_dict contact =
     JObj [(''name'', JStr (Contact.name contact)),
           (''type'', JStr (contact_type contact)),
           (''material'', JStr (Contact.material contact)),
           (''position'', JArr [JNum (fst (position contact)), JNum (snd (position contact))]),
           (''work_function'', json_opt_num (work_function contact)),
           (''contact_resistance'', json_opt_num (contact_resistance contact))]"

definition export_python_mesh :: "'a HEMTStructure_scheme \<Rightarrow> json" where
  "export_python_mesh self =
     JObj [(''substrate_type'', JStr (substrate_type self)),
           (''dimensions'', json_num_dict (device_dimensions self)),
           (''layers'', JArr (map layer_dict (layers self))),
           (''contacts'', JArr (map contact_dict (contacts self)))]"

subsection \<open>Properties the specification names\<close>

text \<open>
  The stack invariant in the specification's words: at most one substrate-type layer, and
  a substrate-type layer can only stand at index 0.
\<close>

definition stack_invariant :: "Layer list \<Rightarrow> bool" where
  "stack_invariant ls =
     (length (filter (\<lambda>l. layer_type l = SUBSTRATE) ls) \<le> 1 \<and>
      (\<forall>i \<in> {0..<length ls}. layer_type (ls ! i) = SUBSTRATE \<longrightarrow> i = 0))"


text \<open>
  Modelled from the spec: the reconstruction of Layer and Contact records from the
  interchange document. The repository has no reader for the document (the consumers are
  external), so the reader below follows the specification: it looks every field up by the
  key under which the export stores it, reads the explicit null marker as an absent
  optional field, turns the two-element array back into the position pair and the type
  string back into the member of the enumeration that has this value.
\<close>

definition LayerType_of_value :: "string \<Rightarrow> LayerType option" where
  "LayerType_of_value v =
     find (\<lambda>t. LayerType_value t = v)
       [SUBSTRATE, NUCLEATION, BUFFER, CHANNEL, SPACER, BARRIER, CAP, PASSIVATION, CONTACT]"

definition obj_field :: "json \<Rightarrow> string \<Rightarrow> json option" where
  "obj_field j k = (case j of JObj kvs \<Rightarrow> map_of kvs k | _ \<Rightarrow> None)"

definition read_str :: "json \<Rightarrow> string option" where
  "read_str j = (case j of JStr x \<Rightarrow> Some x | _ \<Rightarrow> None)"

definition read_num :: "json \<Rightarrow> real option" where
  "read_num j = (case j of JNum x \<Rightarrow> Some x | _ \<Rightarrow> None)"

definition read_opt_str :: "json \<Rightarrow> string option option" where
  "read_opt_str j = (case j of JNull \<Rightarrow> Some None | JStr x \<Rightarrow> Some (Some x) | _ \<Rightarrow> None)"

definition read_opt_num :: "json \<Rightarrow> real option option" where
  "read_opt_num j = (case j of JNull \<Rightarrow> Some None | JNum x \<Rightarrow> Some (Some x) | _ \<Rightarrow> None)"

definition read_num_dict :: "json \<Rightarrow> (string \<times> real) list option" where
  "read_num_dict j =
     (case j of
        JObj kvs \<Rightarrow> those (map (\<lambda>(k, v). map_option (Pair k) (read_num v)) kvs)
      | _ \<Rightarrow> None)"

definition read_opt_num_dict :: "json \<Rightarrow> (string \<times> real) list option option" where
  "read_opt_num_dict j =
     (case j of JNull \<Rightarrow> Some None | _ \<Rightarrow> map_option Some (read_num_dict j))"

definition read_pair :: "json \<Rightarrow> (real \<times> real) option" where
  "read_pair j = (case j of JArr [JNum a, JNum b] \<Rightarrow> Some (a, b) | _ \<Rightarrow> None)"

definition Layer_of_json :: "json \<Rightarrow> Layer option" where
  "Layer_of_json j =
     Option.bind (Option.bind (obj_field j ''name'') read_str) (\<lambda>nm.
     Option.bind (Option.bind (obj_field j ''material'') read_str) (\<lambda>mat.
     Option.bind (Option.bind (obj_field j ''thickness'') read_num) (\<lambda>th.
     Option.bind (Option.bind (Option.bind (obj_field j ''type'') read_str)
                    LayerType_of_value) (\<lambda>lt.
     Option.bind (Option.bind (obj_field j ''doping_type'') read_opt_str) (\<lambda>dt.
     Option.bind (Option.bind (obj_field j ''doping_concentration'') read_num) (\<lambda>dc.
     Option.bind (Option.bind (obj_field j ''composition'') read_opt_num_dict) (\<lambda>cmp.
     Some \<lparr>Layer.name = nm, Layer.material = mat, thickness = th, layer_type = lt,
           doping_type = dt, doping_concentration = dc, composition = cmp\<rparr>)))))))"

definition Contact_of_json :: "json \<Rightarrow> Contact option" where
  "Contact_of_json j =
     Option.bind (Option.bind (obj_field j ''name'') read_str) (\<lambda>nm.
     Option.bind (Option.bind (obj_field j ''type'') read_str) (\<lambda>ct.
     Option.bind (Option.bind (obj_field j ''material'') read_str) (\<lambda>mat.
     Option.bind (Option.bind (obj_field j ''position'') read_pair) (\<lambda>pos.
     Option.bind (Option.bind (obj_field j ''work_function'') read_opt_num) (\<lambda>wfn.
     Option.bind (Option.bind (obj_field j ''contact_resistance'') read_opt_num) (\<lambda>cr.
     Some \<lparr>Contact.name = nm, contact_type = ct, Contact.material = mat, position = pos,
           work_function = wfn, contact_resistance = cr\<rparr>))))))"

definition read_array :: "(json \<Rightarrow> 'a option) \<Rightarrow> json \<Rightarrow> 'a list option" where
  "read_array rd j = (case j of JArr js \<Rightarrow> those (map rd js) | _ \<Rightarrow> None)"

definition reconstruct_layers :: "json \<Rightarrow> Layer list option" where
  "reconstruct_layers doc = Option.bind (obj_field doc ''layers'') (read_array Layer_of_json)"

definition reconstruct_contacts :: "json \<Rightarrow> Contact list option" where
  "reconstruct_contacts doc =
     Option.bind (obj_field doc ''contacts'') (read_array Contact_of_json)"

definition document_keys :: "json \<Rightarrow> string list" where
  "document_keys doc = (case doc of JObj kvs \<Rightarrow> map fst kvs | _ \<Rightarrow> [])"


text \<open>
  The layer sequence that \<^verbatim>\<open>_build_default_structure\<close> produces for a substrate
  type, written out (lemma \<open>build_default_structure_layers\<close> proves that the code
  builds exactly this), and the dimension dictionary of \<^verbatim>\<open>__init__\<close>.
\<close>

definition default_layers :: "string \<Rightarrow> Layer list" where
  "default_layers st =
     \<lparr>Layer.name = ''Substrate'', Layer.material = st,
      thickness = substrate_thickness_of st, layer_type = SUBSTRATE,
      doping_type = None, doping_concentration = 0, composition = None\<rparr> #
     (if st \<noteq> ''GaN''
      then [\<lparr>Layer.name = ''Nucleation'', Layer.material = ''AlN'', thickness = 100,
             layer_type = NUCLEATION, doping_type = None, doping_concentration = 0,
             composition = None\<rparr>]
      else []) @
     [\<lparr>Layer.name = ''Buffer1'', Layer.material = ''AlGaN'', thickness = 500,
       layer_type = BUFFER, doping_type = None, doping_concentration = 0,
       composition = Some [(''Al'', 1 / 10), (''Ga'', 9 / 10)]\<rparr>,
      \<lparr>Layer.name = ''Buffer2'', Layer.material = ''GaN'', thickness = 1500,
       layer_type = BUFFER, doping_type = Some ''n'', doping_concentration = 10 ^ 16,
       composition = None\<rparr>,
      \<lparr>Layer.name = ''Channel'', Layer.material = ''GaN'', thickness = 300,
       layer_type = CHANNEL, doping_type = None, doping_concentration = 10 ^ 16,
       composition = None\<rparr>,
      \<lparr>Layer.name = ''Spacer'', Layer.material = ''AlN'', thickness = 1,
       layer_type = SPACER, doping_type = None, doping_concentration = 0,
       composition = None\<rparr>,
      \<lparr>Layer.name = ''Barrier'', Layer.material = ''InAlN'', thickness = 15,
       layer_type = BARRIER, doping_type = Some ''n'', doping_concentration = 5 * 10 ^ 18,
       composition = Some [(''In'', 17 / 100), (''Al'', 83 / 100)]\<rparr>,
      \<lparr>Layer.name = ''Cap'', Layer.material = ''GaN'', thickness = 2,
       layer_type = CAP, doping_type = Some ''n'', doping_concentration = 2 * 10 ^ 19,
       composition = None\<rparr>]"

definition default_dimensions :: "(string \<times> real) list" where
  "default_dimensions =
     [(''gate_length'', 25 / 100), (''gate_width'', 100),
      (''source_drain_spacing'', 4), (''field_plate_length'', 5 / 10),
      (''device_length'', 10)]"


section \<open>Verified properties\<close>

subsection \<open>Auxiliary facts\<close>

lemma substrate_thickness_of_pos: "0 < substrate_thickness_of st"
  by (simp add: substrate_thickness_of_def)

lemma Layer_init_ok:
  "0 < th \<Longrightarrow> 0 \<le> dc \<Longrightarrow>
   Layer_init nm mat th lt dt dc cmp =
     Inr \<lparr>Layer.name = nm, Layer.material = mat, thickness = th, layer_type = lt,
          doping_type = dt, doping_concentration = dc, composition = cmp\<rparr>"
  by (simp add: Layer_init_def)

lemma bindE_Inr: "bindE (Inr x) f = f x"
  by (simp add: bindE_def)

lemma bindE_Inl: "bindE (Inl e) f = Inl e"
  by (simp add: bindE_def)











lemma build_default_structure_layers:
  assumes "layers self = []"
    and "dict_getitem (device_dimensions self) ''source_drain_spacing'' = Inr sd"
    and "dict_getitem (device_dimensions self) ''gate_length'' = Inr gl"
  shows "\<exists>s. build_default_structure self = Inr s \<and>
     layers s = default_layers (substrate_type self)"
  using assms
  by (simp add: build_default_structure_def define_contacts_def Layer_init_ok
      substrate_thickness_of_pos Contact_init_def add_layer_def add_contact_def bindE_Inr
      Let_def default_layers_def)

lemma default_dimensions_lookup:
  "dict_getitem default_dimensions ''source_drain_spacing'' = Inr 4"
  "dict_getitem default_dimensions ''gate_length'' = Inr (25 / 100)"
  by (simp_all add: dict_getitem_def default_dimensions_def)

lemma HEMTStructure_init_layers:
  "\<exists>s. HEMTStructure_init st = Inr s \<and> layers s = default_layers st"
  using build_default_structure_layers
          [of "\<lparr>substrate_type = st, layers = [], contacts = [],
               device_dimensions = default_dimensions\<rparr>" 4 "25 / 100"]
        default_dimensions_lookup
  by (simp add: HEMTStructure_init_def default_dimensions_def)

lemma AdvancedHEMTStructure_init_layers:
  "\<exists>s. AdvancedHEMTStructure_init st = Inr s \<and> layers s = default_layers st"
  using build_default_structure_layers
          [of "\<lparr>substrate_type = st, layers = [], contacts = [],
               device_dimensions = default_dimensions,
               field_plates = [], passivation_layers = []\<rparr>" 4 "25 / 100"]
        default_dimensions_lookup
  by (auto simp: AdvancedHEMTStructure_init_def default_dimensions_def bindE_Inr)


lemma sum_list_split_filter:
  "sum_list (map f xs) =
     sum_list (map f (filter P xs)) + sum_list (map f (filter (\<lambda>x. \<not> P x) xs))"
  for f :: "'a \<Rightarrow> real"
  by (induction xs) simp_all

lemma next_index_none:
  "\<forall>l \<in> set ls. \<not> cond l \<Longrightarrow> next_index cond i ls = Inl StopIteration"
  by (induction ls arbitrary: i) simp_all

lemma next_index_first:
  "\<forall>l \<in> set pre. \<not> cond l \<Longrightarrow> cond c \<Longrightarrow>
   next_index cond i (pre @ c # post) = Inr (i + length pre)"
  by (induction pre arbitrary: i) simp_all

lemma first_match_split:
  "\<exists>l \<in> set ls. P l \<Longrightarrow>
   \<exists>pre c post. ls = pre @ c # post \<and> (\<forall>l \<in> set pre. \<not> P l) \<and> P c"
  using split_list_first_prop [of ls P] by blast

lemma list_insert_after:
  "list_insert (Suc (length pre)) x (pre @ c # post) = pre @ c # x # post"
  by (simp add: list_insert_def)

lemma stack_invariant_tl:
  "stack_invariant ls = (\<forall>l \<in> set (tl ls). layer_type l \<noteq> SUBSTRATE)"
proof (cases ls)
  case Nil
  then show ?thesis by (simp add: stack_invariant_def)
next
  case (Cons x xs)
  show ?thesis
  proof
    assume inv: "stack_invariant ls"
    show "\<forall>l \<in> set (tl ls). layer_type l \<noteq> SUBSTRATE"
    proof
      fix l assume "l \<in> set (tl ls)"
      with Cons obtain j where j: "j < length xs" and l: "xs ! j = l"
        by (auto simp: in_set_conv_nth)
      from j Cons have "Suc j \<in> {0..<length ls}" by simp
      with inv have "layer_type (ls ! Suc j) = SUBSTRATE \<longrightarrow> Suc j = 0"
        unfolding stack_invariant_def by blast
      with Cons l show "layer_type l \<noteq> SUBSTRATE" by simp
    qed
  next
    assume tl: "\<forall>l \<in> set (tl ls). layer_type l \<noteq> SUBSTRATE"
    with Cons have xs: "\<forall>l \<in> set xs. layer_type l \<noteq> SUBSTRATE" by simp
    then have f: "filter (\<lambda>l. layer_type l = SUBSTRATE) xs = []"
      by (simp add: filter_empty_conv)
    have idx: "i = 0" if "i \<in> {0..<length ls}" and "layer_type (ls ! i) = SUBSTRATE" for i
    proof (cases i)
      case 0
      then show ?thesis .
    next
      case (Suc j)
      with that Cons have "j < length xs" and "layer_type (xs ! j) = SUBSTRATE" by simp_all
      with xs show ?thesis by (metis nth_mem)
    qed
    from f Cons idx show "stack_invariant ls"
      unfolding stack_invariant_def by auto
  qed
qed

lemma next_index_Inr_nonempty: "next_index cond i ls = Inr k \<Longrightarrow> ls \<noteq> []"
  by (cases ls) simp_all

lemma tl_list_insert_Suc: "ls \<noteq> [] \<Longrightarrow> tl (list_insert (Suc i) x ls) = list_insert i x (tl ls)"
  by (cases ls) (simp_all add: list_insert_def)

lemma set_list_insert: "set (list_insert i x xs) = insert x (set xs)"
proof -
  have "set (take i xs) \<union> set (drop i xs) = set xs"
    by (metis append_take_drop_id set_append)
  then show ?thesis by (auto simp: list_insert_def)
qed

lemma Layer_init_layer_type:
  "Layer_init nm mat th lt dt dc cmp = Inr l \<Longrightarrow> layer_type l = lt"
  by (auto simp: Layer_init_def split: if_splits)

lemma add_back_barrier_layers:
  assumes "add_back_barrier adv th dc = Inr adv'"
  shows "layers adv \<noteq> [] \<and>
         (\<exists>i bb. layer_type bb = BUFFER \<and> layers adv' = list_insert (Suc i) bb (layers adv))"
proof -
  from assms obtain i where i: "next_index (\<lambda>layer. layer_type layer = CHANNEL) 0 (layers adv) = Inr i"
    by (cases "next_index (\<lambda>layer. layer_type layer = CHANNEL) 0 (layers adv)")
       (simp_all add: add_back_barrier_def bindE_def)
  from assms i obtain bb where bb: "Layer_init ''BackBarrier'' ''AlGaN'' th BUFFER (Some ''p'') dc
              (Some [(''Al'', 5 / 100), (''Ga'', 95 / 100)]) = Inr bb"
    by (cases "Layer_init ''BackBarrier'' ''AlGaN'' th BUFFER (Some ''p'') dc
              (Some [(''Al'', 5 / 100), (''Ga'', 95 / 100)])")
       (simp_all add: add_back_barrier_def bindE_def)
  from assms i bb have "layers adv' = list_insert (Suc i) bb (layers adv)"
    by (auto simp: add_back_barrier_def bindE_def)
  with next_index_Inr_nonempty [OF i] Layer_init_layer_type [OF bb] show ?thesis by blast
qed

lemma default_layers_invariant: "stack_invariant (default_layers st)"
  by (simp add: stack_invariant_tl default_layers_def)

lemma those_map_Some:
  "(\<And>x. x \<in> set xs \<Longrightarrow> rd (wr x) = Some x) \<Longrightarrow> those (map rd (map wr xs)) = Some xs"
  by (induction xs) simp_all

lemma LayerType_of_value_inverse: "LayerType_of_value (LayerType_value t) = Some t"
  by (cases t) (simp_all add: LayerType_of_value_def)

lemma read_num_dict_inverse: "read_num_dict (json_num_dict d) = Some d"
proof -
  have "those (map (\<lambda>(k, v). map_option (Pair k) (read_num v))
                 (map (\<lambda>(k, v). (k, JNum v)) d)) = Some d"
    by (rule those_map_Some) (auto simp: read_num_def)
  then show ?thesis by (simp add: read_num_dict_def json_num_dict_def)
qed

lemma read_opt_num_dict_inverse:
  "read_opt_num_dict (case c of None \<Rightarrow> JNull | Some d \<Rightarrow> json_num_dict d) = Some c"
proof (cases c)
  case None
  then show ?thesis by (simp add: read_opt_num_dict_def)
next
  case (Some d)
  with read_num_dict_inverse [of d] show ?thesis
    by (simp add: read_opt_num_dict_def json_num_dict_def)
qed

lemma read_opt_str_inverse: "read_opt_str (json_opt_str v) = Some v"
  by (cases v) (simp_all add: read_opt_str_def json_opt_str_def)

lemma read_opt_num_inverse: "read_opt_num (json_opt_num v) = Some v"
  by (cases v) (simp_all add: read_opt_num_def json_opt_num_def)

lemma Layer_of_json_inverse: "Layer_of_json (layer_dict l) = Some l"
  by (simp add: Layer_of_json_def layer_dict_def obj_field_def read_str_def read_num_def
      LayerType_of_value_inverse read_opt_str_inverse read_opt_num_dict_inverse)

lemma Contact_of_json_inverse: "Contact_of_json (contact_dict c) = Some c"
  by (simp add: Contact_of_json_def contact_dict_def obj_field_def read_str_def read_pair_def
      read_opt_num_inverse)

lemma doping_loop_eq:
  "doping_loop format_2e i ls =
     map (\<lambda>(i, l).
            ''(define doping_'' @ str_nat i @ '' (constant '' @
            [CHR 0x22] @ Layer.name l @ [CHR 0x22] @ '' '' @
            [CHR 0x22] @ (if doping_type l = Some ''n'' then ''donor'' else ''acceptor'') @
            [CHR 0x22] @ '' '' @ format_2e (doping_concentration l) @ ''))'' @ [CHR 0x0A])
       (filter (\<lambda>(i, l). 0 < doping_concentration l) (enumerate i ls))"
  by (induction ls arbitrary: i) simp_all

lemma length_filter_enumerate:
  "length (filter (\<lambda>(i, l). P l) (enumerate i ls)) = length (filter P ls)"
  by (induction ls arbitrary: i) simp_all

lemma round_half_even_of_int: "round_half_even (of_int n) = n"
  by (simp add: round_half_even_def)

lemma round_small_of_nat: "round_small n (of_nat m) = of_nat m"
proof (induction n arbitrary: m)
  case 0
  have "round_half_even (of_nat m) = int m"
    using round_half_even_of_int [of "int m"] by simp
  then show ?case by simp
next
  case (Suc n)
  have r: "round_half_even (of_nat m) = int m"
    using round_half_even_of_int [of "int m"] by simp
  have "round_small n (2 * of_nat m) = 2 * of_nat m"
    using Suc.IH [of "2 * m"] by simp
  with r show ?case by simp
qed

lemma double_round_nat:
  assumes "x \<in> \<nat>" and "x < 2 ^ 53"
  shows "double_round x = x"
proof -
  from assms(1) obtain m where m: "x = of_nat m" by (auto simp: Nats_def)
  have "0 \<le> x" using m by simp
  with assms(2) m show ?thesis
    by (simp add: double_round_def round_small_of_nat)
qed

lemma round_small_scaled:
  "k \<le> n \<Longrightarrow> 2 ^ 52 \<le> x * 2 ^ k \<Longrightarrow> x * 2 ^ k < 2 ^ 53 \<Longrightarrow>
   round_small n x = of_int (round_half_even (x * 2 ^ k)) / 2 ^ k"
proof (induction k arbitrary: n x)
  case 0
  then show ?case by (cases n) simp_all
next
  case (Suc k)
  from Suc.prems(1) obtain n' where n: "n = Suc n'" and k: "k \<le> n'" by (cases n) simp_all
  have small: "x < 2 ^ 52"
  proof (rule ccontr)
    assume "\<not> x < 2 ^ 52"
    then have x: "2 ^ 52 \<le> x" by simp
    have "(2::real) \<le> 2 ^ Suc k" by (simp add: self_le_power)
    with x have "2 ^ 52 * 2 \<le> x * 2 ^ Suc k"
      by (intro mult_mono) simp_all
    with Suc.prems(3) show False by simp
  qed
  from Suc.prems have "2 ^ 52 \<le> (2 * x) * 2 ^ k" and "(2 * x) * 2 ^ k < 2 ^ 53"
    by (simp_all add: mult_ac)
  from Suc.IH [OF k this] small n show ?case by (simp add: mult_ac)
qed

lemma double_round_eval:
  assumes "0 \<le> x" and "k \<le> 1074" and "2 ^ 52 \<le> x * 2 ^ k" and "x * 2 ^ k < 2 ^ 53"
  shows "double_round x = of_int (round_half_even (x * 2 ^ k)) / 2 ^ k"
proof -
  have "(1::real) \<le> 2 ^ k" by simp
  with assms(1) have "x * 1 \<le> x * 2 ^ k" by (intro mult_left_mono) simp_all
  with assms(4) have "x < 2 ^ 53" by simp
  with assms(1) round_small_scaled [OF assms(2) assms(3) assms(4)] show ?thesis
    by (simp add: double_round_def)
qed

lemma double_one_tenth: "double_round (1 / 10) = 3602879701896397 / 2 ^ 55"
  using double_round_eval [of "1 / 10" 56] by (simp add: round_half_even_def)

lemma double_four_tenths: "double_round (4 / 10) = 3602879701896397 / 2 ^ 53"
  using double_round_eval [of "4 / 10" 54] by (simp add: round_half_even_def)

lemma foldl_float_add_exact:
  "\<forall>x \<in> set xs. x \<in> \<nat> \<Longrightarrow> a \<in> \<nat> \<Longrightarrow> a + sum_list xs < 2 ^ 53 \<Longrightarrow>
   foldl float_add a xs = a + sum_list xs"
proof (induction xs arbitrary: a)
  case Nil
  then show ?case by simp
next
  case (Cons x xs)
  from Cons.prems have x: "x \<in> \<nat>" and xs: "\<forall>y \<in> set xs. y \<in> \<nat>" by simp_all
  have nn: "0 \<le> sum_list xs"
    using xs by (intro sum_list_nonneg) (auto simp: Nats_def)
  from x Cons.prems(2) have ax: "a + x \<in> \<nat>" by (rule_tac Nats_add)
  from nn Cons.prems(3) have "a + x < 2 ^ 53" by simp
  with ax have s: "float_add a x = a + x" by (simp add: float_add_def double_round_nat)
  from Cons.prems(3) have "(a + x) + sum_list xs < 2 ^ 53" by (simp add: add.assoc)
  from Cons.IH [OF xs ax this] s show ?case by (simp add: add.assoc)
qed

lemma py_sum_exact:
  "\<forall>x \<in> set xs. x \<in> \<nat> \<Longrightarrow> sum_list xs < 2 ^ 53 \<Longrightarrow> py_sum xs = sum_list xs"
  using foldl_float_add_exact [of xs 0] by (simp add: py_sum_def)

lemma sum_list_Nats: "\<forall>x \<in> set xs. x \<in> \<nat> \<Longrightarrow> sum_list xs \<in> (\<nat> :: real set)"
  by (induction xs) (simp_all add: Nats_add)

lemma sum_list_filter_le:
  "\<forall>x \<in> set xs. 0 \<le> f x \<Longrightarrow> sum_list (map f (filter P xs)) \<le> sum_list (map f xs)"
  for f :: "'a \<Rightarrow> real"
  by (induction xs) (auto intro: add_increasing)

lemma last_boundaries_loop_rounded:
  "bs \<noteq> [] \<Longrightarrow> last bs = z \<Longrightarrow>
   last (boundaries_loop_rounded bs z ls) =
     foldl float_add z (map thickness (filter (\<lambda>l. layer_type l \<noteq> SUBSTRATE) ls))"
  by (induction ls arbitrary: bs z) simp_all

lemma boundaries_loop_rounded_exact:
  "\<forall>l \<in> set ls. layer_type l \<noteq> SUBSTRATE \<longrightarrow> thickness l \<in> \<nat> \<Longrightarrow> z \<in> \<nat> \<Longrightarrow>
   z + sum_list (map thickness (filter (\<lambda>l. layer_type l \<noteq> SUBSTRATE) ls)) < 2 ^ 53 \<Longrightarrow>
   boundaries_loop_rounded bs z ls = boundaries_loop bs z ls"
proof (induction ls arbitrary: bs z)
  case Nil
  then show ?case by simp
next
  case (Cons l ls)
  let ?ts = "map thickness (filter (\<lambda>l. layer_type l \<noteq> SUBSTRATE) ls)"
  from Cons.prems(1) have rest: "\<forall>l \<in> set ls. layer_type l \<noteq> SUBSTRATE \<longrightarrow> thickness l \<in> \<nat>"
    by simp
  show ?case
  proof (cases "layer_type l = SUBSTRATE")
    case True
    with Cons.prems Cons.IH [OF rest, of z bs] show ?thesis by simp
  next
    case False
    with Cons.prems(1) have t: "thickness l \<in> \<nat>" by simp
    with Cons.prems(2) have zt: "z + thickness l \<in> \<nat>" by (simp add: Nats_add)
    have "0 \<le> sum_list ?ts"
      using rest by (intro sum_list_nonneg) (auto simp: Nats_def)
    with Cons.prems(3) False have "z + thickness l < 2 ^ 53" by simp
    with zt have fa: "float_add z (thickness l) = z + thickness l"
      by (simp add: float_add_def double_round_nat)
    from Cons.prems(3) False have "(z + thickness l) + sum_list ?ts < 2 ^ 53"
      by (simp add: add.assoc)
    from Cons.IH [OF rest zt this] fa False show ?thesis by simp
  qed
qed

subsection \<open>Construction of layers and contacts\<close>

text \<open>
  C9. Constructing a Layer raises \<^verbatim>\<open>ValueError\<close> (the specification's validation
  error) when the thickness is not positive, and when the doping concentration is
  negative; with a positive thickness and a doping concentration of exactly 0 it raises
  nothing and returns the record with the given fields.
\<close>

theorem Layer_init_validation:
  "(th \<le> 0 \<longrightarrow> (\<exists>msg. Layer_init nm mat th lt dt dc cmp = Inl (ValueError msg))) \<and>
   (dc < 0 \<longrightarrow> (\<exists>msg. Layer_init nm mat th lt dt dc cmp = Inl (ValueError msg))) \<and>
   (0 < th \<and> dc = 0 \<longrightarrow>
      Layer_init nm mat th lt dt dc cmp =
        Inr \<lparr>Layer.name = nm, Layer.material = mat, thickness = th, layer_type = lt,
             doping_type = dt, doping_concentration = 0, composition = cmp\<rparr>)"
  by (simp add: Layer_init_def)

theorem Layer_init_validation_witness:
  "(0::real) \<le> 0 \<and> (\<exists>msg. Layer_init ''Cap'' ''GaN'' 0 CAP None 0 None = Inl (ValueError msg)) \<and>
   (-1::real) < 0 \<and> (\<exists>msg. Layer_init ''Cap'' ''GaN'' 2 CAP None (-1) None = Inl (ValueError msg)) \<and>
   (0::real) < 2 \<and>
   Layer_init ''Cap'' ''GaN'' 2 CAP None 0 None =
     Inr \<lparr>Layer.name = ''Cap'', Layer.material = ''GaN'', thickness = 2, layer_type = CAP,
          doping_type = None, doping_concentration = 0, composition = None\<rparr>"
  using Layer_init_validation [of 0 "''Cap''" "''GaN''" CAP None 0 None]
        Layer_init_validation [of 2 "''Cap''" "''GaN''" CAP None "-1" None]
        Layer_init_validation [of 2 "''Cap''" "''GaN''" CAP None 0 None]
  by simp

text \<open>
  C1, as the code has it. Constructing a Contact validates nothing: for every position
  pair, ordered or not, the construction succeeds and returns the record with the given
  fields. In particular a pair with \<open>x_start < x_end\<close> does not make it fail.
\<close>

theorem Contact_init_never_fails:
  "Contact_init nm ct mat (x_start, x_end) wfn cr =
     Inr \<lparr>Contact.name = nm, contact_type = ct, Contact.material = mat,
          position = (x_start, x_end), work_function = wfn, contact_resistance = cr\<rparr>"
  by (simp add: Contact_init_def)

text \<open>
  C1, as the specification states it, fails: the position pair \<open>(2, 1)\<close> has
  \<open>x_start \<ge> x_end\<close>, and the construction does not raise.
\<close>

theorem Contact_init_degenerate_position_accepted:
  "(1::real) \<le> 2 \<and>
   \<not> isl (Contact_init ''Gate'' ''schottky'' ''Ni/Au'' (2, 1) (Some (51 / 10)) None)"
  by (simp add: Contact_init_def)

subsection \<open>Layer boundaries\<close>



subsection \<open>Channel depth\<close>



subsection \<open>Insertion of the back barrier\<close>

text \<open>
  C2. The positional insert is \<^verbatim>\<open>add_back_barrier\<close>, with the channel type as its
  anchor. When the stack has no channel-type layer it raises (the exhausted generator
  makes \<^verbatim>\<open>next\<close> raise \<^verbatim>\<open>StopIteration\<close>, the lookup failure of the
  specification), before the new layer is even constructed. When the stack has a
  channel-type layer and the new layer is a valid one (positive thickness, non-negative
  doping concentration), the stack splits at its first channel-type layer into
  \<open>bottom_part\<close>, the channel and \<open>top_part\<close>; the result is the same structure with the
  back barrier placed right after that channel and every other layer in its old order,
  and the sequence is longer by exactly one.
\<close>

theorem add_back_barrier_inserts_after_first_channel:
  "((\<forall>l \<in> set (layers self). layer_type l \<noteq> CHANNEL) \<longrightarrow>
      add_back_barrier self th dc = Inl StopIteration) \<and>
   ((\<exists>l \<in> set (layers self). layer_type l = CHANNEL) \<and> 0 < th \<and> 0 \<le> dc \<longrightarrow>
      (\<exists>bottom_part channel top_part.
         layers self = bottom_part @ channel # top_part \<and>
         (\<forall>l \<in> set bottom_part. layer_type l \<noteq> CHANNEL) \<and>
         layer_type channel = CHANNEL \<and>
         add_back_barrier self th dc =
           Inr (self\<lparr>layers :=
                  bottom_part @ channel #
                  \<lparr>Layer.name = ''BackBarrier'', Layer.material = ''AlGaN'', thickness = th,
                   layer_type = BUFFER, doping_type = Some ''p'', doping_concentration = dc,
                   composition = Some [(''Al'', 5 / 100), (''Ga'', 95 / 100)]\<rparr> #
                  top_part\<rparr>) \<and>
         length (bottom_part @ channel #
                  \<lparr>Layer.name = ''BackBarrier'', Layer.material = ''AlGaN'', thickness = th,
                   layer_type = BUFFER, doping_type = Some ''p'', doping_concentration = dc,
                   composition = Some [(''Al'', 5 / 100), (''Ga'', 95 / 100)]\<rparr> #
                  top_part) = length (layers self) + 1))"
proof (intro conjI impI)
  assume "\<forall>l \<in> set (layers self). layer_type l \<noteq> CHANNEL"
  from next_index_none [of "layers self" "\<lambda>l. layer_type l = CHANNEL" 0, OF this]
  show "add_back_barrier self th dc = Inl StopIteration"
    by (simp add: add_back_barrier_def bindE_Inl)
next
  let ?bb = "\<lparr>Layer.name = ''BackBarrier'', Layer.material = ''AlGaN'', thickness = th,
                   layer_type = BUFFER, doping_type = Some ''p'', doping_concentration = dc,
                   composition = Some [(''Al'', 5 / 100), (''Ga'', 95 / 100)]\<rparr>"
  assume a: "(\<exists>l \<in> set (layers self). layer_type l = CHANNEL) \<and> 0 < th \<and> 0 \<le> dc"
  then obtain pre c post where split: "layers self = pre @ c # post"
    and pre: "\<forall>l \<in> set pre. layer_type l \<noteq> CHANNEL" and c: "layer_type c = CHANNEL"
    using first_match_split [of "layers self" "\<lambda>l. layer_type l = CHANNEL"] by blast
  from a have th: "0 < th" and dc: "0 \<le> dc" by simp_all
  have idx: "next_index (\<lambda>l. layer_type l = CHANNEL) 0 (pre @ c # post) = Inr (length pre)"
    using next_index_first [of pre "\<lambda>l. layer_type l = CHANNEL" c 0 post] pre c by simp
  have "add_back_barrier self th dc = Inr (self\<lparr>layers := pre @ c # ?bb # post\<rparr>)"
    by (simp add: add_back_barrier_def idx bindE_Inr Layer_init_ok [OF th dc] split
        list_insert_after)
  with split pre c
  show "\<exists>bottom_part channel top_part.
         layers self = bottom_part @ channel # top_part \<and>
         (\<forall>l \<in> set bottom_part. layer_type l \<noteq> CHANNEL) \<and>
         layer_type channel = CHANNEL \<and>
         add_back_barrier self th dc =
           Inr (self\<lparr>layers := bottom_part @ channel # ?bb # top_part\<rparr>) \<and>
         length (bottom_part @ channel # ?bb # top_part) = length (layers self) + 1"
    by (intro exI [of _ pre] exI [of _ c] exI [of _ post]) simp
qed

theorem add_back_barrier_inserts_after_first_channel_witness:
  "list_all (\<lambda>l. layer_type l \<noteq> CHANNEL)
     (layers \<lparr>substrate_type = ''SiC'', layers = take 4 (default_layers ''SiC''),
       contacts = [], device_dimensions = default_dimensions,
       field_plates = [], passivation_layers = []\<rparr>) \<and>
   add_back_barrier \<lparr>substrate_type = ''SiC'', layers = take 4 (default_layers ''SiC''),
       contacts = [], device_dimensions = default_dimensions,
       field_plates = [], passivation_layers = []\<rparr> 50 (5 * 10 ^ 18) = Inl StopIteration \<and>
   (\<exists>l \<in> set (layers \<lparr>substrate_type = ''SiC'', layers = default_layers ''SiC'',
       contacts = [], device_dimensions = default_dimensions,
       field_plates = [], passivation_layers = []\<rparr>). layer_type l = CHANNEL) \<and>
   (0::real) < 50 \<and> (0::real) \<le> 5 * 10 ^ 18 \<and>
   (\<exists>s'. add_back_barrier \<lparr>substrate_type = ''SiC'', layers = default_layers ''SiC'',
       contacts = [], device_dimensions = default_dimensions,
       field_plates = [], passivation_layers = []\<rparr> 50 (5 * 10 ^ 18) = Inr s' \<and>
      length (layers s') = 9)"
proof -
  let ?a0 = "\<lparr>substrate_type = ''SiC'', layers = take 4 (default_layers ''SiC''),
       contacts = [], device_dimensions = default_dimensions,
       field_plates = [], passivation_layers = []\<rparr>"
  let ?a1 = "\<lparr>substrate_type = ''SiC'', layers = default_layers ''SiC'',
       contacts = [], device_dimensions = default_dimensions,
       field_plates = [], passivation_layers = []\<rparr>"
  have h0: "\<forall>l \<in> set (layers ?a0). layer_type l \<noteq> CHANNEL"
    by (simp add: default_layers_def)
  have h1: "\<exists>l \<in> set (layers ?a1). layer_type l = CHANNEL"
    by (simp add: default_layers_def)
  have n: "length (layers ?a1) = 8" by (simp add: default_layers_def)
  from add_back_barrier_inserts_after_first_channel [of ?a0 50 "5 * 10 ^ 18"] h0
  have r0: "add_back_barrier ?a0 50 (5 * 10 ^ 18) = Inl StopIteration" by blast
  from add_back_barrier_inserts_after_first_channel [of ?a1 50 "5 * 10 ^ 18"] h1
  obtain bottom_part channel top_part where
    "add_back_barrier ?a1 50 (5 * 10 ^ 18) =
       Inr (?a1\<lparr>layers := bottom_part @ channel #
          \<lparr>Layer.name = ''BackBarrier'', Layer.material = ''AlGaN'', thickness = 50,
           layer_type = BUFFER, doping_type = Some ''p'', doping_concentration = 5 * 10 ^ 18,
           composition = Some [(''Al'', 5 / 100), (''Ga'', 95 / 100)]\<rparr> # top_part\<rparr>)"
    and "length (bottom_part @ channel #
          \<lparr>Layer.name = ''BackBarrier'', Layer.material = ''AlGaN'', thickness = 50,
           layer_type = BUFFER, doping_type = Some ''p'', doping_concentration = 5 * 10 ^ 18,
           composition = Some [(''Al'', 5 / 100), (''Ga'', 95 / 100)]\<rparr> # top_part) =
         length (layers ?a1) + 1"
    by auto
  with n have r1: "\<exists>s'. add_back_barrier ?a1 50 (5 * 10 ^ 18) = Inr s' \<and> length (layers s') = 9"
    by simp
  from h0 r0 h1 r1 show ?thesis by (simp add: list_all_iff)
qed


subsection \<open>The substrate invariant\<close>

text \<open>
  C3, as the code has it. \<^verbatim>\<open>add_layer\<close> keeps the invariant when the appended layer
  is not of substrate type or the stack is empty; \<^verbatim>\<open>add_back_barrier\<close> keeps it
  whenever it returns; the stacks built by the two constructors satisfy it, for every
  substrate type.
\<close>

theorem stack_invariant_preserved:
  "(stack_invariant (layers self) \<and> (layer_type layer \<noteq> SUBSTRATE \<or> layers self = []) \<longrightarrow>
      stack_invariant (layers (add_layer self layer))) \<and>
   (stack_invariant (layers adv) \<and> add_back_barrier adv th dc = Inr adv' \<longrightarrow>
      stack_invariant (layers adv')) \<and>
   (\<exists>s. HEMTStructure_init st = Inr s \<and> stack_invariant (layers s)) \<and>
   (\<exists>a. AdvancedHEMTStructure_init st = Inr a \<and> stack_invariant (layers a))"
proof (intro conjI impI)
  assume a: "stack_invariant (layers self) \<and> (layer_type layer \<noteq> SUBSTRATE \<or> layers self = [])"
  show "stack_invariant (layers (add_layer self layer))"
  proof (cases "layers self")
    case Nil
    then show ?thesis by (simp add: stack_invariant_tl add_layer_def)
  next
    case (Cons x xs)
    with a show ?thesis by (simp add: stack_invariant_tl add_layer_def)
  qed
next
  assume a: "stack_invariant (layers adv) \<and> add_back_barrier adv th dc = Inr adv'"
  with add_back_barrier_layers [of adv th dc adv']
  obtain i bb where ne: "layers adv \<noteq> []" and bb: "layer_type bb = BUFFER"
    and l: "layers adv' = list_insert (Suc i) bb (layers adv)" by blast
  from a bb show "stack_invariant (layers adv')"
    by (simp add: stack_invariant_tl l tl_list_insert_Suc [OF ne] set_list_insert)
next
  from HEMTStructure_init_layers [of st] default_layers_invariant [of st]
  show "\<exists>s. HEMTStructure_init st = Inr s \<and> stack_invariant (layers s)" by auto
next
  from AdvancedHEMTStructure_init_layers [of st] default_layers_invariant [of st]
  show "\<exists>a. AdvancedHEMTStructure_init st = Inr a \<and> stack_invariant (layers a)" by auto
qed

theorem stack_invariant_preserved_witness:
  "stack_invariant (layers \<lparr>substrate_type = ''SiC'', layers = default_layers ''SiC'',
       contacts = [], device_dimensions = default_dimensions,
       field_plates = [], passivation_layers = []\<rparr>) \<and>
   layer_type \<lparr>Layer.name = ''Passivation'', Layer.material = ''SiN'', thickness = 100,
       layer_type = PASSIVATION, doping_type = None, doping_concentration = 0,
       composition = None\<rparr> \<noteq> SUBSTRATE \<and>
   stack_invariant (layers (add_layer \<lparr>substrate_type = ''SiC'', layers = default_layers ''SiC'',
       contacts = [], device_dimensions = default_dimensions,
       field_plates = [], passivation_layers = []\<rparr>
     \<lparr>Layer.name = ''Passivation'', Layer.material = ''SiN'', thickness = 100,
       layer_type = PASSIVATION, doping_type = None, doping_concentration = 0,
       composition = None\<rparr>)) \<and>
   add_back_barrier \<lparr>substrate_type = ''SiC'', layers = default_layers ''SiC'',
       contacts = [], device_dimensions = default_dimensions,
       field_plates = [], passivation_layers = []\<rparr> 50 (5 * 10 ^ 18) =
     Inr \<lparr>substrate_type = ''SiC'',
          layers = take 5 (default_layers ''SiC'') @
            \<lparr>Layer.name = ''BackBarrier'', Layer.material = ''AlGaN'', thickness = 50,
             layer_type = BUFFER, doping_type = Some ''p'', doping_concentration = 5 * 10 ^ 18,
             composition = Some [(''Al'', 5 / 100), (''Ga'', 95 / 100)]\<rparr> #
            drop 5 (default_layers ''SiC''),
          contacts = [], device_dimensions = default_dimensions,
          field_plates = [], passivation_layers = []\<rparr> \<and>
   stack_invariant (take 5 (default_layers ''SiC'') @
            \<lparr>Layer.name = ''BackBarrier'', Layer.material = ''AlGaN'', thickness = 50,
             layer_type = BUFFER, doping_type = Some ''p'', doping_concentration = 5 * 10 ^ 18,
             composition = Some [(''Al'', 5 / 100), (''Ga'', 95 / 100)]\<rparr> #
            drop 5 (default_layers ''SiC''))"
proof -
  let ?a = "\<lparr>substrate_type = ''SiC'', layers = default_layers ''SiC'',
       contacts = [], device_dimensions = default_dimensions,
       field_plates = [], passivation_layers = []\<rparr>"
  let ?p = "\<lparr>Layer.name = ''Passivation'', Layer.material = ''SiN'', thickness = 100,
       layer_type = PASSIVATION, doping_type = None, doping_concentration = 0,
       composition = None\<rparr>"
  let ?bb = "\<lparr>Layer.name = ''BackBarrier'', Layer.material = ''AlGaN'', thickness = 50,
             layer_type = BUFFER, doping_type = Some ''p'', doping_concentration = 5 * 10 ^ 18,
             composition = Some [(''Al'', 5 / 100), (''Ga'', 95 / 100)]\<rparr>"
  let ?a' = "\<lparr>substrate_type = ''SiC'',
          layers = take 5 (default_layers ''SiC'') @ ?bb # drop 5 (default_layers ''SiC''),
          contacts = [], device_dimensions = default_dimensions,
          field_plates = [], passivation_layers = []\<rparr>"
  have inv: "stack_invariant (layers ?a)" by (simp add: default_layers_invariant)
  have p: "layer_type ?p \<noteq> SUBSTRATE" by simp
  have bb: "add_back_barrier ?a 50 (5 * 10 ^ 18) = Inr ?a'"
    by (simp add: add_back_barrier_def default_layers_def bindE_Inr Layer_init_ok list_insert_def)
  from stack_invariant_preserved [of ?a ?p ?a 50 "5 * 10 ^ 18" ?a' "''SiC''"] inv p bb
  have "stack_invariant (layers (add_layer ?a ?p))" and "stack_invariant (layers ?a')"
    by blast+
  with inv p bb show ?thesis by simp
qed


text \<open>
  C3, as the specification states it, fails: \<^verbatim>\<open>add_layer\<close> accepts any layer, so
  appending a second substrate-type layer (a valid Layer) to the freshly constructed
  default structure, which satisfies the invariant, gives a stack that violates it.
\<close>

theorem add_layer_second_substrate_breaks_invariant:
  "\<not> isl (HEMTStructure_init ''SiC'') \<and>
   Layer_init ''Carrier'' ''Si'' 525000 SUBSTRATE None 0 None =
     Inr \<lparr>Layer.name = ''Carrier'', Layer.material = ''Si'', thickness = 525000,
          layer_type = SUBSTRATE, doping_type = None, doping_concentration = 0,
          composition = None\<rparr> \<and>
   stack_invariant (layers (projr (HEMTStructure_init ''SiC''))) \<and>
   \<not> stack_invariant (layers (add_layer (projr (HEMTStructure_init ''SiC''))
       \<lparr>Layer.name = ''Carrier'', Layer.material = ''Si'', thickness = 525000,
        layer_type = SUBSTRATE, doping_type = None, doping_concentration = 0,
        composition = None\<rparr>))"
proof -
  from HEMTStructure_init_layers [of "''SiC''"]
  obtain s where s: "HEMTStructure_init ''SiC'' = Inr s" and l: "layers s = default_layers ''SiC''"
    by auto
  have "\<not> stack_invariant (default_layers ''SiC'' @
       [\<lparr>Layer.name = ''Carrier'', Layer.material = ''Si'', thickness = 525000,
        layer_type = SUBSTRATE, doping_type = None, doping_concentration = 0,
        composition = None\<rparr>])"
    by (simp add: stack_invariant_tl default_layers_def)
  with s l default_layers_invariant [of "''SiC''"] show ?thesis
    by (simp add: add_layer_def Layer_init_def)
qed

subsection \<open>The two exports\<close>

text \<open>
  C7. The document that \<^verbatim>\<open>export_python_mesh\<close> builds records every field of every
  Layer and Contact, in order: reading the Layer and Contact records back from it gives
  exactly the lists of layers and contacts of the structure. Every record carries all of
  its keys, the optional ones too (an absent value is the null marker), and the document
  has the four top-level keys and nothing else, so no derived geometry is stored.
\<close>

theorem export_python_mesh_round_trip:
  "reconstruct_layers (export_python_mesh self) = Some (layers self) \<and>
   reconstruct_contacts (export_python_mesh self) = Some (contacts self) \<and>
   document_keys (export_python_mesh self) =
     [''substrate_type'', ''dimensions'', ''layers'', ''contacts''] \<and>
   document_keys (layer_dict l) =
     [''name'', ''material'', ''thickness'', ''type'', ''doping_type'',
      ''doping_concentration'', ''composition''] \<and>
   document_keys (contact_dict c) =
     [''name'', ''type'', ''material'', ''position'', ''work_function'',
      ''contact_resistance'']"
proof -
  have "those (map Layer_of_json (map layer_dict (layers self))) = Some (layers self)"
    by (rule those_map_Some) (rule Layer_of_json_inverse)
  then have ls: "reconstruct_layers (export_python_mesh self) = Some (layers self)"
    by (simp add: reconstruct_layers_def export_python_mesh_def obj_field_def read_array_def)
  have "those (map Contact_of_json (map contact_dict (contacts self))) = Some (contacts self)"
    by (rule those_map_Some) (rule Contact_of_json_inverse)
  then have cs: "reconstruct_contacts (export_python_mesh self) = Some (contacts self)"
    by (simp add: reconstruct_contacts_def export_python_mesh_def obj_field_def read_array_def)
  from ls cs show ?thesis
    by (simp add: document_keys_def export_python_mesh_def layer_dict_def contact_dict_def)
qed


text \<open>
  C8. The doping section of the Sentaurus export holds exactly one directive for each
  layer with a doping concentration above 0, in stack order and numbered by the layer's
  index, and none for the other layers. The directive names the layer, classifies it as
  \<open>donor\<close> when the doping type is \<open>n\<close> and as \<open>acceptor\<close> otherwise (an absent doping
  type included), and ends with the concentration as rendered by the \<^verbatim>\<open>.2e\<close> format.
\<close>

theorem doping_directives_per_doped_layer:
  "doping_directives format_2e self =
     map (\<lambda>(i, l).
            ''(define doping_'' @ str_nat i @ '' (constant '' @
            [CHR 0x22] @ Layer.name l @ [CHR 0x22] @ '' '' @
            [CHR 0x22] @ (if doping_type l = Some ''n'' then ''donor'' else ''acceptor'') @
            [CHR 0x22] @ '' '' @ format_2e (doping_concentration l) @ ''))'' @ [CHR 0x0A])
       (filter (\<lambda>(i, l). 0 < doping_concentration l) (enumerate 0 (layers self))) \<and>
   length (doping_directives format_2e self) =
     length (filter (\<lambda>l. 0 < doping_concentration l) (layers self))"
  by (simp add: doping_directives_def doping_loop_eq length_filter_enumerate)

theorem doping_directives_per_doped_layer_witness:
  "doping_directives (\<lambda>x. ''<conc>'')
     \<lparr>substrate_type = ''SiC'', layers = drop 3 (default_layers ''SiC''),
      contacts = [], device_dimensions = default_dimensions\<rparr> =
     [''(define doping_0 (constant '' @ [CHR 0x22] @ ''Buffer2'' @ [CHR 0x22] @ '' '' @
        [CHR 0x22] @ ''donor'' @ [CHR 0x22] @ '' <conc>))'' @ [CHR 0x0A],
      ''(define doping_1 (constant '' @ [CHR 0x22] @ ''Channel'' @ [CHR 0x22] @ '' '' @
        [CHR 0x22] @ ''acceptor'' @ [CHR 0x22] @ '' <conc>))'' @ [CHR 0x0A],
      ''(define doping_3 (constant '' @ [CHR 0x22] @ ''Barrier'' @ [CHR 0x22] @ '' '' @
        [CHR 0x22] @ ''donor'' @ [CHR 0x22] @ '' <conc>))'' @ [CHR 0x0A],
      ''(define doping_4 (constant '' @ [CHR 0x22] @ ''Cap'' @ [CHR 0x22] @ '' '' @
        [CHR 0x22] @ ''donor'' @ [CHR 0x22] @ '' <conc>))'' @ [CHR 0x0A]]"
proof -
  have d: "str_nat n = [''0123456789'' ! n]" if "n < 10" for n
    using that by (subst str_nat.simps) simp
  from doping_directives_per_doped_layer
         [of "\<lambda>x. ''<conc>''"
             "\<lparr>substrate_type = ''SiC'', layers = drop 3 (default_layers ''SiC''),
               contacts = [], device_dimensions = default_dimensions\<rparr>"]
  show ?thesis
    by (simp add: default_layers_def enumerate_eq_zip upt_rec d)
qed

subsection \<open>Sums of thicknesses in double precision\<close>

text \<open>
  C6, as the code has it. For a stack with exactly one substrate-type layer in which
  every thickness is a whole number of nm and the thicknesses add up to less than
  \<open>2 ^ 53\<close> (the default structure is such a stack), no addition rounds:
  \<^verbatim>\<open>get_total_thickness\<close> equals the thickness of the substrate layer plus
  \<^verbatim>\<open>get_epi_thickness\<close>, and it is the exact sum of all thicknesses.
\<close>

theorem total_thickness_substrate_plus_epi_exact:
  assumes "filter (\<lambda>l. layer_type l = SUBSTRATE) (layers self) = [substrate]"
    and "\<forall>l \<in> set (layers self). thickness l \<in> \<nat>"
    and "sum_list (map thickness (layers self)) < 2 ^ 53"
  shows "get_total_thickness self = float_add (thickness substrate) (get_epi_thickness self) \<and>
         get_total_thickness self = sum_list (map thickness (layers self))"
proof -
  let ?epi = "filter (\<lambda>l. layer_type l \<noteq> SUBSTRATE) (layers self)"
  have nn: "\<forall>l \<in> set (layers self). 0 \<le> thickness l"
    using assms(2) by (auto simp: Nats_def)
  have split: "sum_list (map thickness (layers self)) =
      thickness substrate + sum_list (map thickness ?epi)"
    using sum_list_split_filter [of thickness "layers self" "\<lambda>l. layer_type l = SUBSTRATE"]
      assms(1) by simp
  have total: "get_total_thickness self = sum_list (map thickness (layers self))"
    using assms(2,3) by (simp add: get_total_thickness_def py_sum_exact)
  have "sum_list (map thickness ?epi) \<le> sum_list (map thickness (layers self))"
    by (rule sum_list_filter_le [OF nn])
  with assms(2,3) have epi: "get_epi_thickness self = sum_list (map thickness ?epi)"
    by (simp add: get_epi_thickness_def py_sum_exact)
  have "sum_list (map thickness (layers self)) \<in> \<nat>"
    using assms(2) by (intro sum_list_Nats) simp
  with assms(3) split
  have "float_add (thickness substrate) (sum_list (map thickness ?epi)) =
        sum_list (map thickness (layers self))"
    by (simp add: float_add_def double_round_nat)
  with total epi show ?thesis by simp
qed

theorem total_thickness_substrate_plus_epi_exact_witness:
  "filter (\<lambda>l. layer_type l = SUBSTRATE)
     (layers \<lparr>substrate_type = ''SiC'', layers = default_layers ''SiC'',
              contacts = [], device_dimensions = default_dimensions\<rparr>) =
     [hd (default_layers ''SiC'')] \<and>
   list_all (\<lambda>l. thickness l \<in> \<nat>)
     (layers \<lparr>substrate_type = ''SiC'', layers = default_layers ''SiC'',
              contacts = [], device_dimensions = default_dimensions\<rparr>) \<and>
   sum_list (map thickness
     (layers \<lparr>substrate_type = ''SiC'', layers = default_layers ''SiC'',
              contacts = [], device_dimensions = default_dimensions\<rparr>)) < 2 ^ 53 \<and>
   get_total_thickness \<lparr>substrate_type = ''SiC'', layers = default_layers ''SiC'',
              contacts = [], device_dimensions = default_dimensions\<rparr> = 352418 \<and>
   float_add (thickness (hd (default_layers ''SiC'')))
     (get_epi_thickness \<lparr>substrate_type = ''SiC'', layers = default_layers ''SiC'',
              contacts = [], device_dimensions = default_dimensions\<rparr>) = 352418"
proof -
  let ?s = "\<lparr>substrate_type = ''SiC'', layers = default_layers ''SiC'',
              contacts = [], device_dimensions = default_dimensions\<rparr>"
  have h1: "filter (\<lambda>l. layer_type l = SUBSTRATE) (layers ?s) = [hd (default_layers ''SiC'')]"
    by (simp add: default_layers_def)
  have h2: "\<forall>l \<in> set (layers ?s). thickness l \<in> \<nat>"
    by (simp add: default_layers_def substrate_thickness_of_def)
  have v: "sum_list (map thickness (layers ?s)) = 352418"
    by (simp add: default_layers_def substrate_thickness_of_def)
  then have h3: "sum_list (map thickness (layers ?s)) < 2 ^ 53" by simp
  from total_thickness_substrate_plus_epi_exact [OF h1 h2 h3] h1 h2 h3 v
  show ?thesis by (simp add: list_all_iff)
qed

text \<open>
  C6, as the specification states it, fails. The stack has one substrate-type layer, of
  thickness 0.1, under layers of thickness 0.1 and 0.4 (the doubles nearest to these
  decimals). \<^verbatim>\<open>get_total_thickness\<close> adds \<open>(0.1 + 0.1) + 0.4\<close> and returns
  0.6000000000000001; the substrate thickness plus \<^verbatim>\<open>get_epi_thickness\<close> is
  \<open>0.1 + (0.1 + 0.4)\<close>, which is 0.6.
\<close>

theorem total_thickness_association_counterexample:
  "get_total_thickness
     \<lparr>substrate_type = ''GaN'',
      layers =
        [\<lparr>Layer.name = ''Substrate'', Layer.material = ''GaN'', thickness = double_round (1 / 10),
          layer_type = SUBSTRATE, doping_type = None, doping_concentration = 0,
          composition = None\<rparr>,
         \<lparr>Layer.name = ''Buffer'', Layer.material = ''GaN'', thickness = double_round (1 / 10),
          layer_type = BUFFER, doping_type = None, doping_concentration = 0,
          composition = None\<rparr>,
         \<lparr>Layer.name = ''Channel'', Layer.material = ''GaN'', thickness = double_round (4 / 10),
          layer_type = CHANNEL, doping_type = None, doping_concentration = 0,
          composition = None\<rparr>],
      contacts = [], device_dimensions = default_dimensions\<rparr> = 1351079888211149 / 2 ^ 51 \<and>
   float_add (double_round (1 / 10))
     (get_epi_thickness
       \<lparr>substrate_type = ''GaN'',
        layers =
          [\<lparr>Layer.name = ''Substrate'', Layer.material = ''GaN'', thickness = double_round (1 / 10),
            layer_type = SUBSTRATE, doping_type = None, doping_concentration = 0,
            composition = None\<rparr>,
           \<lparr>Layer.name = ''Buffer'', Layer.material = ''GaN'', thickness = double_round (1 / 10),
            layer_type = BUFFER, doping_type = None, doping_concentration = 0,
            composition = None\<rparr>,
           \<lparr>Layer.name = ''Channel'', Layer.material = ''GaN'', thickness = double_round (4 / 10),
            layer_type = CHANNEL, doping_type = None, doping_concentration = 0,
            composition = None\<rparr>],
        contacts = [], device_dimensions = default_dimensions\<rparr>) = 5404319552844595 / 2 ^ 53 \<and>
   (1351079888211149 / 2 ^ 51 :: real) \<noteq> 5404319552844595 / 2 ^ 53"
proof -
  let ?d1 = "3602879701896397 / 2 ^ 55 :: real"
  let ?d2 = "3602879701896397 / 2 ^ 54 :: real"
  let ?d4 = "3602879701896397 / 2 ^ 53 :: real"
  have s1: "float_add 0 ?d1 = ?d1"
    using double_round_eval [of ?d1 56] by (simp add: float_add_def round_half_even_def)
  have s2: "float_add ?d1 ?d1 = ?d2"
    using double_round_eval [of "?d1 + ?d1" 55] by (simp add: float_add_def round_half_even_def)
  have s3: "float_add ?d2 ?d4 = 1351079888211149 / 2 ^ 51"
    using double_round_eval [of "?d2 + ?d4" 53] by (simp add: float_add_def round_half_even_def)
  have s4: "float_add ?d1 ?d4 = 1 / 2"
    using double_round_eval [of "?d1 + ?d4" 53] by (simp add: float_add_def round_half_even_def)
  have s5: "float_add ?d1 (1 / 2) = 5404319552844595 / 2 ^ 53"
    using double_round_eval [of "?d1 + 1 / 2" 53] by (simp add: float_add_def round_half_even_def)
  have total: "float_add (float_add (float_add 0 ?d1) ?d1) ?d4 = 1351079888211149 / 2 ^ 51"
    by (simp only: s1 s2 s3)
  have epi: "float_add ?d1 (float_add (float_add 0 ?d1) ?d4) = 5404319552844595 / 2 ^ 53"
    by (simp only: s1 s4 s5)
  have ne: "(1351079888211149 / 2 ^ 51 :: real) \<noteq> 5404319552844595 / 2 ^ 53" by simp
  have d4: "double_round (2 / 5) = ?d4" using double_four_tenths by simp
  from total epi ne show ?thesis
    by (simp add: get_total_thickness_def get_epi_thickness_def py_sum_def
        double_one_tenth d4)
qed

text \<open>
  C10, as the code has it. For a stack in which every non-substrate thickness is a whole
  number of nm and these thicknesses add up to less than \<open>2 ^ 53\<close>, the last element of
  the list of boundaries equals \<^verbatim>\<open>get_epi_thickness\<close>, and both are the exact sum of
  the thicknesses of the non-substrate layers; with no such layer both are 0.
\<close>

theorem last_boundary_is_epi_thickness_exact:
  assumes "\<forall>l \<in> set (layers self). layer_type l \<noteq> SUBSTRATE \<longrightarrow> thickness l \<in> \<nat>"
    and "sum_list (map thickness (filter (\<lambda>l. layer_type l \<noteq> SUBSTRATE) (layers self))) < 2 ^ 53"
  shows "last (get_layer_boundaries_rounded self) = get_epi_thickness self \<and>
         get_epi_thickness self =
           sum_list (map thickness (filter (\<lambda>l. layer_type l \<noteq> SUBSTRATE) (layers self)))"
proof -
  let ?up = "map thickness (filter (\<lambda>l. layer_type l \<noteq> SUBSTRATE) (layers self))"
  let ?down = "map thickness (filter (\<lambda>l. layer_type l \<noteq> SUBSTRATE) (rev (layers self)))"
  have rev: "?down = rev ?up" by (simp add: rev_map flip: rev_filter)
  have nat_up: "\<forall>x \<in> set ?up. x \<in> \<nat>" using assms(1) by auto
  then have nat_down: "\<forall>x \<in> set ?down. x \<in> \<nat>" by (simp add: rev)
  have sum_down: "sum_list ?down = sum_list ?up" by (simp add: rev)
  have "last (get_layer_boundaries_rounded self) = foldl float_add 0 ?down"
    by (simp add: get_layer_boundaries_rounded_def last_boundaries_loop_rounded)
  also have "\<dots> = sum_list ?down"
    using foldl_float_add_exact [OF nat_down, of 0] assms(2) sum_down by simp
  finally have top_down: "last (get_layer_boundaries_rounded self) = sum_list ?up"
    by (simp add: sum_down)
  have "get_epi_thickness self = sum_list ?up"
    using py_sum_exact [OF nat_up assms(2)] by (simp add: get_epi_thickness_def)
  with top_down show ?thesis by simp
qed

theorem last_boundary_is_epi_thickness_exact_witness:
  "list_all (\<lambda>l. thickness l \<in> \<nat>)
     (filter (\<lambda>l. layer_type l \<noteq> SUBSTRATE)
       (layers \<lparr>substrate_type = ''SiC'', layers = default_layers ''SiC'',
                contacts = [], device_dimensions = default_dimensions\<rparr>)) \<and>
   sum_list (map thickness (filter (\<lambda>l. layer_type l \<noteq> SUBSTRATE)
       (layers \<lparr>substrate_type = ''SiC'', layers = default_layers ''SiC'',
                contacts = [], device_dimensions = default_dimensions\<rparr>))) < 2 ^ 53 \<and>
   last (get_layer_boundaries_rounded
       \<lparr>substrate_type = ''SiC'', layers = default_layers ''SiC'',
        contacts = [], device_dimensions = default_dimensions\<rparr>) = 2418 \<and>
   get_epi_thickness
       \<lparr>substrate_type = ''SiC'', layers = default_layers ''SiC'',
        contacts = [], device_dimensions = default_dimensions\<rparr> = 2418"
proof -
  let ?s = "\<lparr>substrate_type = ''SiC'', layers = default_layers ''SiC'',
              contacts = [], device_dimensions = default_dimensions\<rparr>"
  have h1: "\<forall>l \<in> set (layers ?s). layer_type l \<noteq> SUBSTRATE \<longrightarrow> thickness l \<in> \<nat>"
    by (simp add: default_layers_def)
  have v: "sum_list (map thickness (filter (\<lambda>l. layer_type l \<noteq> SUBSTRATE) (layers ?s))) = 2418"
    by (simp add: default_layers_def)
  then have h2: "sum_list (map thickness (filter (\<lambda>l. layer_type l \<noteq> SUBSTRATE) (layers ?s)))
      < 2 ^ 53" by simp
  from last_boundary_is_epi_thickness_exact [OF h1 h2] h1 h2 v
  show ?thesis by (simp add: list_all_iff)
qed

text \<open>
  C10, as the specification states it, fails. Above the substrate the stack has layers
  of thickness 0.1, 0.1 and 0.4 (the doubles nearest to these decimals). The boundary
  walk runs from the top, adds \<open>(0.4 + 0.1) + 0.1\<close> and ends at 0.6;
  \<^verbatim>\<open>get_epi_thickness\<close> runs from the bottom, adds \<open>(0.1 + 0.1) + 0.4\<close> and returns
  0.6000000000000001.
\<close>

theorem last_boundary_order_counterexample:
  "last (get_layer_boundaries_rounded
     \<lparr>substrate_type = ''SiC'',
      layers =
        [\<lparr>Layer.name = ''Substrate'', Layer.material = ''SiC'', thickness = 350000,
          layer_type = SUBSTRATE, doping_type = None, doping_concentration = 0,
          composition = None\<rparr>,
         \<lparr>Layer.name = ''Buffer'', Layer.material = ''GaN'', thickness = double_round (1 / 10),
          layer_type = BUFFER, doping_type = None, doping_concentration = 0,
          composition = None\<rparr>,
         \<lparr>Layer.name = ''Channel'', Layer.material = ''GaN'', thickness = double_round (1 / 10),
          layer_type = CHANNEL, doping_type = None, doping_concentration = 0,
          composition = None\<rparr>,
         \<lparr>Layer.name = ''Barrier'', Layer.material = ''AlN'', thickness = double_round (4 / 10),
          layer_type = BARRIER, doping_type = None, doping_concentration = 0,
          composition = None\<rparr>],
      contacts = [], device_dimensions = default_dimensions\<rparr>) = 5404319552844595 / 2 ^ 53 \<and>
   get_epi_thickness
     \<lparr>substrate_type = ''SiC'',
      layers =
        [\<lparr>Layer.name = ''Substrate'', Layer.material = ''SiC'', thickness = 350000,
          layer_type = SUBSTRATE, doping_type = None, doping_concentration = 0,
          composition = None\<rparr>,
         \<lparr>Layer.name = ''Buffer'', Layer.material = ''GaN'', thickness = double_round (1 / 10),
          layer_type = BUFFER, doping_type = None, doping_concentration = 0,
          composition = None\<rparr>,
         \<lparr>Layer.name = ''Channel'', Layer.material = ''GaN'', thickness = double_round (1 / 10),
          layer_type = CHANNEL, doping_type = None, doping_concentration = 0,
          composition = None\<rparr>,
         \<lparr>Layer.name = ''Barrier'', Layer.material = ''AlN'', thickness = double_round (4 / 10),
          layer_type = BARRIER, doping_type = None, doping_concentration = 0,
          composition = None\<rparr>],
      contacts = [], device_dimensions = default_dimensions\<rparr> = 1351079888211149 / 2 ^ 51 \<and>
   (5404319552844595 / 2 ^ 53 :: real) \<noteq> 1351079888211149 / 2 ^ 51"
proof -
  let ?d1 = "3602879701896397 / 2 ^ 55 :: real"
  let ?d2 = "3602879701896397 / 2 ^ 54 :: real"
  let ?d4 = "3602879701896397 / 2 ^ 53 :: real"
  have s1: "float_add 0 ?d1 = ?d1"
    using double_round_eval [of ?d1 56] by (simp add: float_add_def round_half_even_def)
  have s2: "float_add ?d1 ?d1 = ?d2"
    using double_round_eval [of "?d1 + ?d1" 55] by (simp add: float_add_def round_half_even_def)
  have s3: "float_add ?d2 ?d4 = 1351079888211149 / 2 ^ 51"
    using double_round_eval [of "?d2 + ?d4" 53] by (simp add: float_add_def round_half_even_def)
  have s4: "float_add 0 ?d4 = ?d4"
    using double_round_eval [of ?d4 54] by (simp add: float_add_def round_half_even_def)
  have s5: "float_add ?d4 ?d1 = 1 / 2"
    using double_round_eval [of "?d4 + ?d1" 53] by (simp add: float_add_def round_half_even_def)
  have s6: "float_add (1 / 2) ?d1 = 5404319552844595 / 2 ^ 53"
    using double_round_eval [of "1 / 2 + ?d1" 53] by (simp add: float_add_def round_half_even_def)
  have up: "float_add (float_add (float_add 0 ?d1) ?d1) ?d4 = 1351079888211149 / 2 ^ 51"
    by (simp only: s1 s2 s3)
  have down: "float_add (float_add (float_add 0 ?d4) ?d1) ?d1 = 5404319552844595 / 2 ^ 53"
    by (simp only: s4 s5 s6)
  have ne: "(5404319552844595 / 2 ^ 53 :: real) \<noteq> 1351079888211149 / 2 ^ 51" by simp
  have d4: "double_round (2 / 5) = ?d4" using double_four_tenths by simp
  from up down ne show ?thesis
    by (simp add: get_layer_boundaries_rounded_def last_boundaries_loop_rounded
        get_epi_thickness_def py_sum_def double_one_tenth d4)
qed

end
